theory Spec2Isabelle
  imports Main
begin

section \<open>Python values and exceptions\<close>

text \<open>
  The client is Python: attributes and arguments are dynamically typed, and every failure is
  an exception. An exception is a value of type \<open>error\<close>, named after the Python class and
  carrying its message; a computation that may raise returns \<open>error + 'a\<close>.
\<close>

datatype error =
    ValueError string
  | AttributeError string
  | TypeError string
  | KeyError string
  | OSError string
  | RequestException string
  | JSONDecodeError string

text \<open>
  The scalar values an attribute of a package may hold. \<open>PObject n\<close> stands for any other
  object (a bound method, a class), identified by the attribute name it was found under.
\<close>

datatype pyval = PNone | PBool bool | PInt int | PStr string | PObject string

text \<open>Python's truth test (\<open>not x\<close> is its negation).\<close>

fun truthy :: "pyval \<Rightarrow> bool" where
  "truthy PNone = False"
| "truthy (PBool b) = b"
| "truthy (PInt i) = (i \<noteq> 0)"
| "truthy (PStr s) = (s \<noteq> [])"
| "truthy (PObject n) = True"

text \<open>Decimal digits of a natural number, as \<open>str\<close> prints them.\<close>

fun str_nat :: "nat \<Rightarrow> string" where
  "str_nat n =
     (if n < 10 then [''0123456789'' ! n]
      else str_nat (n div 10) @ [''0123456789'' ! (n mod 10)])"

declare str_nat.simps [simp del]

definition str_int :: "int \<Rightarrow> string" where
  "str_int i = (if i < 0 then CHR ''-'' # str_nat (nat (- i)) else str_nat (nat i))"

text \<open>
  \<open>'{}'.format(v)\<close> inserts \<open>str(v)\<close>. For \<open>PObject\<close> the text Python prints holds a
  memory address; the model keeps the name only.
\<close>

fun py_str :: "pyval \<Rightarrow> string" where
  "py_str PNone = ''None''"
| "py_str (PBool b) = (if b then ''True'' else ''False'')"
| "py_str (PInt i) = str_int i"
| "py_str (PStr s) = s"
| "py_str (PObject n) = ''<'' @ n @ ''>''"

section \<open>The class DataPackage (qci/classes.py)\<close>

text \<open>
  An instance holds the three private fields that \<open>__init__\<close> assigns:
  \<open>_access_token\<close>, \<open>_primary_id\<close>, \<open>_secondary_id\<close> (an Isabelle name cannot start
  with an underscore, so the fields are prefixed \<open>f\<close>).
\<close>

record DataPackage =
  f_access_token :: pyval
  f_primary_id :: pyval
  f_secondary_id :: pyval

text \<open>
  \<open>def __init__(self, access_token, primary_id, secondary_id)\<close>: three parameters, none
  with a default. An argument the call does not supply is \<open>None\<close> here; Python refuses such
  a call with a \<open>TypeError\<close> that lists the missing parameters.
\<close>

definition missing_args :: "(string \<times> pyval option) list \<Rightarrow> string list" where
  "missing_args ps = map fst (filter (\<lambda>p. snd p = None) ps)"

definition quoted :: "string \<Rightarrow> string" where
  "quoted a = CHR 0x27 # a @ [CHR 0x27]"

fun join_rest :: "string list \<Rightarrow> string" where
  "join_rest [] = []"
| "join_rest [b] = ''and '' @ quoted b"
| "join_rest (b # bs) = quoted b @ '', '' @ join_rest bs"

fun join_names :: "string list \<Rightarrow> string" where
  "join_names [] = []"
| "join_names [a] = quoted a"
| "join_names [a, b] = quoted a @ '' and '' @ quoted b"
| "join_names (a # bs) = quoted a @ '', '' @ join_rest bs"

definition missing_message :: "string list \<Rightarrow> string" where
  "missing_message ms =
     ''__init__() missing '' @ str_nat (length ms) @ '' required positional argument''
       @ (if length ms = 1 then [] else ''s'') @ '': '' @ join_names ms"

definition DataPackage_init ::
    "pyval option \<Rightarrow> pyval option \<Rightarrow> pyval option \<Rightarrow> error + DataPackage" where
  "DataPackage_init access_token primary_id secondary_id =
     (case (access_token, primary_id, secondary_id) of
        (Some a, Some p, Some s) \<Rightarrow>
          Inr \<lparr>f_access_token = a, f_primary_id = p, f_secondary_id = s\<rparr>
      | _ \<Rightarrow>
          Inl (TypeError (missing_message (missing_args
            [(''access_token'', access_token), (''primary_id'', primary_id),
             (''secondary_id'', secondary_id)]))))"

text \<open>
  Attribute lookup on an instance, \<open>self.name\<close>. The class defines the property
  \<open>access_token\<close> (which returns \<open>self._access_token\<close>) and the methods \<open>__init__\<close>,
  \<open>to_xml\<close>, \<open>validate\<close> and \<open>__str__\<close>; the instance holds the three private fields;
  the rest is what every class inherits from \<open>object\<close>. Any other name raises
  \<open>AttributeError\<close>.
\<close>

definition class_methods :: "string list" where
  "class_methods = [''__init__'', ''to_xml'', ''validate'', ''__str__'']"

definition object_attrs :: "string list" where
  "object_attrs =
     [''__class__'', ''__delattr__'', ''__dict__'', ''__dir__'', ''__eq__'', ''__format__'',
      ''__ge__'', ''__getattribute__'', ''__gt__'', ''__hash__'', ''__init_subclass__'',
      ''__le__'', ''__lt__'', ''__ne__'', ''__new__'', ''__reduce__'', ''__reduce_ex__'',
      ''__repr__'', ''__setattr__'', ''__sizeof__'', ''__subclasshook__'', ''__weakref__'']"

definition no_attribute :: "string \<Rightarrow> string \<Rightarrow> error" where
  "no_attribute cls name =
     AttributeError (quoted cls @ '' object has no attribute '' @ quoted name)"

definition getattr_DataPackage :: "DataPackage \<Rightarrow> string \<Rightarrow> error + pyval" where
  "getattr_DataPackage self name =
     (if name = ''access_token'' then Inr (f_access_token self)
      else if name = ''_access_token'' then Inr (f_access_token self)
      else if name = ''_primary_id'' then Inr (f_primary_id self)
      else if name = ''_secondary_id'' then Inr (f_secondary_id self)
      else if name \<in> set class_methods then Inr (PObject name)
      else if name = ''__doc__'' then Inr PNone
      else if name = ''__module__'' then Inr (PStr ''qci.classes'')
      else if name \<in> set object_attrs then Inr (PObject name)
      else Inl (no_attribute ''DataPackage'' name))"

text \<open>
  The methods. None of them assigns to \<open>self\<close>; each is written in state-passing style,
  returning its result (or the exception) together with the instance as the call leaves it.
\<close>

definition access_token :: "DataPackage \<Rightarrow> (error + pyval) \<times> DataPackage" where
  "access_token self = (getattr_DataPackage self ''_access_token'', self)"

text \<open>\<open>s += v\<close> for a string \<open>s\<close>: concatenation when \<open>v\<close> is a string, \<open>TypeError\<close> otherwise.\<close>

fun type_name :: "pyval \<Rightarrow> string" where
  "type_name PNone = ''NoneType''"
| "type_name (PBool b) = ''bool''"
| "type_name (PInt i) = ''int''"
| "type_name (PStr s) = ''str''"
| "type_name (PObject n) = ''method''"

fun str_iadd :: "string \<Rightarrow> pyval \<Rightarrow> error + string" where
  "str_iadd s (PStr t) = Inr (s @ t)"
| "str_iadd s v =
     Inl (TypeError (''can only concatenate str (not '' @ [CHR 0x22] @ type_name v
        @ [CHR 0x22] @ '') to str''))"

definition to_xml :: "DataPackage \<Rightarrow> (error + string) \<times> DataPackage" where
  "to_xml self =
     (let datapackage_xml = [] in
      case getattr_DataPackage self ''_primary_id'' of
        Inl e \<Rightarrow> (Inl e, self)
      | Inr v \<Rightarrow>
          (case str_iadd datapackage_xml v of
             Inl e \<Rightarrow> (Inl e, self)
           | Inr datapackage_xml' \<Rightarrow> (Inr datapackage_xml', self)))"

definition validation_message :: "pyval \<Rightarrow> string" where
  "validation_message v =
     ''DataPackage for ID '' @ py_str v @ '' failed validation (no access token set)''"

text \<open>
  \<open>validate(self, debug=False)\<close>: the same test twice, as the source has it. The argument of
  \<open>ValueError\<close> is evaluated before the exception is built, so the lookup of
  \<open>self.primary_id\<close> comes first. Falling off the end returns \<open>None\<close>.
\<close>

definition validate :: "DataPackage \<Rightarrow> bool \<Rightarrow> (error + pyval) \<times> DataPackage" where
  "validate self debug =
     (case access_token self of
        (Inl e, self1) \<Rightarrow> (Inl e, self1)
      | (Inr tok, self1) \<Rightarrow>
          if \<not> truthy tok then
            (if debug then
               (case getattr_DataPackage self1 ''primary_id'' of
                  Inl e \<Rightarrow> (Inl e, self1)
                | Inr v \<Rightarrow> (Inl (ValueError (validation_message v)), self1))
             else (Inr (PBool False), self1))
          else
            (case access_token self1 of
               (Inl e, self2) \<Rightarrow> (Inl e, self2)
             | (Inr tok2, self2) \<Rightarrow>
                 if \<not> truthy tok2 then
                   (if debug then
                      (case getattr_DataPackage self2 ''primary_id'' of
                         Inl e \<Rightarrow> (Inl e, self2)
                       | Inr v \<Rightarrow> (Inl (ValueError (validation_message v)), self2))
                    else (Inr (PBool False), self2))
                 else (Inr PNone, self2)))"

text \<open>\<open>__str__\<close>: \<open>return self.primary_id\<close>.\<close>

definition DataPackage_str :: "DataPackage \<Rightarrow> (error + pyval) \<times> DataPackage" where
  "DataPackage_str self =
     (case getattr_DataPackage self ''primary_id'' of
        Inl e \<Rightarrow> (Inl e, self)
      | Inr v \<Rightarrow> (Inr v, self))"

section \<open>The environment of the client (qci/api.py)\<close>

text \<open>
  Every function of the module performs one HTTP call through \<open>requests\<close>; two of them also
  touch the disk and one reads the clock. The environment is a record that each function
  takes and returns: the remote service (any function from requests to responses or
  transport errors), the log of the requests performed, the disk, the clock, and what the
  operating system chooses (the next file descriptor, the random part of a temporary name,
  the absolute form of a path).
\<close>

datatype json =
    JNull | JBool bool | JInt int | JFloat string | JStr string
  | JList "json list" | JDict "(string \<times> json) list"

record response =
  content :: string
  json_of :: "error + json"

record request =
  req_method :: string
  req_url :: string
  req_params :: "(string \<times> string) list"
  req_headers :: "(string \<times> string) list"
  req_files :: "(string \<times> string) list"

record datetime =
  year :: nat
  month :: nat
  day :: nat

record world =
  server :: "request \<Rightarrow> error + response"
  sent :: "request list"
  disk :: "string \<rightharpoonup> string"
  openable :: "string \<Rightarrow> bool"
  now :: datetime
  abspath :: "string \<Rightarrow> string"
  next_fd :: int
  temp_name :: string

definition requests_get ::
    "string \<Rightarrow> (string \<times> string) list \<Rightarrow> (string \<times> string) list \<Rightarrow> world
      \<Rightarrow> (error + response) \<times> world" where
  "requests_get api_url payload hdrs w =
     (let r = \<lparr>req_method = ''GET'', req_url = api_url, req_params = payload,
                req_headers = hdrs, req_files = []\<rparr>
      in (server w r, w\<lparr>sent := sent w @ [r]\<rparr>))"

definition requests_post ::
    "string \<Rightarrow> (string \<times> string) list \<Rightarrow> (string \<times> string) list \<Rightarrow> world
      \<Rightarrow> (error + response) \<times> world" where
  "requests_post api_url hdrs fls w =
     (let r = \<lparr>req_method = ''POST'', req_url = api_url, req_params = [],
                req_headers = hdrs, req_files = fls\<rparr>
      in (server w r, w\<lparr>sent := sent w @ [r]\<rparr>))"

text \<open>
  \<open>d[k]\<close> on the value \<open>resp.json()\<close> returns, for a string key. \<open>JDict\<close> holds the
  items of a Python \<open>dict\<close>, so its keys are distinct.
\<close>

fun json_getitem :: "json \<Rightarrow> string \<Rightarrow> error + json" where
  "json_getitem (JDict d) k =
     (case map_of d k of None \<Rightarrow> Inl (KeyError (quoted k)) | Some v \<Rightarrow> Inr v)"
| "json_getitem (JList xs) k =
     Inl (TypeError ''list indices must be integers or slices, not str'')"
| "json_getitem (JStr s) k = Inl (TypeError ''string indices must be integers'')"
| "json_getitem JNull k = Inl (TypeError (quoted ''NoneType'' @ '' object is not subscriptable''))"
| "json_getitem (JBool b) k = Inl (TypeError (quoted ''bool'' @ '' object is not subscriptable''))"
| "json_getitem (JInt i) k = Inl (TypeError (quoted ''int'' @ '' object is not subscriptable''))"
| "json_getitem (JFloat f) k = Inl (TypeError (quoted ''float'' @ '' object is not subscriptable''))"

text \<open>
  \<open>urljoin(base, url)\<close> as the module uses it: every reference it passes starts with one
  \<open>/\<close>, so the result is the scheme and host of the base followed by the reference.
  Python rewrites the reference besides: it resolves the path segments \<open>.\<close> and \<open>..\<close>,
  removes every tab, carriage return and line feed, and drops an empty \<open>;\<close> parameter part
  and an empty \<open>#\<close> fragment. The module's fixed paths have none of these; the values a
  caller passes may, so every theorem about a URL built from a caller's value assumes that
  the value is free of them (\<open>plain\<close> and \<open>path_safe\<close> below), and on such values the
  definition is what Python computes.
\<close>

fun origin :: "string \<Rightarrow> string" where
  "origin [] = []"
| "origin (c # cs) =
     (if c = CHR '':'' \<and> take 2 cs = ''//''
      then c # ''//'' @ takeWhile (\<lambda>x. x \<noteq> CHR ''/'') (drop 2 cs)
      else c # origin cs)"

definition dirname :: "string \<Rightarrow> string" where
  "dirname base = rev (dropWhile (\<lambda>x. x \<noteq> CHR ''/'') (rev base))"

definition urljoin :: "string \<Rightarrow> string \<Rightarrow> string" where
  "urljoin base url =
     (if url = [] then base
      else if hd url = CHR ''/'' then origin base @ url
      else dirname base @ url)"

definition BASE_URL :: string where
  "BASE_URL = ''https://api.ingenuity.com/''"

definition bearer :: "string \<Rightarrow> (string \<times> string) list" where
  "bearer token = [(''Authorization'', ''Bearer '' @ token)]"

section \<open>Token retrieval\<close>

definition get_access_token :: "string \<Rightarrow> string \<Rightarrow> world \<Rightarrow> (error + json) \<times> world" where
  "get_access_token client_id client_secret w =
     (let api_url = urljoin BASE_URL ''/v1/oauth/access_token'';
          payload = [(''grant_type'', ''client_credentials''),
                     (''client_id'', client_id),
                     (''client_secret'', client_secret)]
      in case requests_get api_url payload [] w of
           (Inl e, w1) \<Rightarrow> (Inl e, w1)
         | (Inr resp, w1) \<Rightarrow>
             (case json_of resp of
                Inl e \<Rightarrow> (Inl e, w1)
              | Inr j \<Rightarrow> (json_getitem j ''access_token'', w1)))"

section \<open>Package upload\<close>

text \<open>
  The argument of \<open>upload_datapackage\<close> is any Python object: an instance of the class, or
  something else.
\<close>

datatype pyobj = Obj_DataPackage DataPackage | Obj_Value pyval

definition validate_datapackage :: "pyobj \<Rightarrow> error + unit" where
  "validate_datapackage datapackage =
     (case datapackage of
        Obj_DataPackage dp \<Rightarrow> Inr ()
      | Obj_Value v \<Rightarrow>
          Inl (ValueError (''DataPackage failed validation (not a DataPackage): '' @ py_str v)))"

fun obj_to_xml :: "pyobj \<Rightarrow> (error + string) \<times> pyobj" where
  "obj_to_xml (Obj_DataPackage dp) = (case to_xml dp of (r, dp') \<Rightarrow> (r, Obj_DataPackage dp'))"
| "obj_to_xml (Obj_Value v) = (Inl (no_attribute (type_name v) ''to_xml''), Obj_Value v)"

fun obj_access_token :: "pyobj \<Rightarrow> (error + pyval) \<times> pyobj" where
  "obj_access_token (Obj_DataPackage dp) =
     (case access_token dp of (r, dp') \<Rightarrow> (r, Obj_DataPackage dp'))"
| "obj_access_token (Obj_Value v) =
     (Inl (no_attribute (type_name v) ''access_token''), Obj_Value v)"

text \<open>
  \<open>tempfile.mkstemp(prefix, suffix)\<close> creates an empty file and returns a pair: the
  descriptor of the open file, which is an \<open>int\<close>, and the path.
\<close>

definition mkstemp :: "string \<Rightarrow> string \<Rightarrow> world \<Rightarrow> (int \<times> string) \<times> world" where
  "mkstemp prefix suffix w =
     (let path = ''/tmp/'' @ prefix @ temp_name w @ suffix
      in ((next_fd w, path), w\<lparr>disk := (disk w)(path \<mapsto> []), next_fd := next_fd w + 1\<rparr>))"

text \<open>
  The object a name like \<open>datapackage_fd\<close> is bound to: a descriptor (an \<open>int\<close>), or a file
  object (as \<open>open\<close> returns) with its path and position. \<open>x.write(data)\<close> and
  \<open>x.read()\<close> first look the method up on \<open>x\<close>, before any argument is evaluated; the
  type \<open>int\<close> has neither method.
\<close>

datatype handle = OsFd int | FileObject string nat

definition int_attrs :: "string list" where
  "int_attrs =
     [''__abs__'', ''__add__'', ''__and__'', ''__bool__'', ''__ceil__'', ''__class__'',
      ''__delattr__'', ''__dir__'', ''__divmod__'', ''__doc__'', ''__eq__'', ''__float__'',
      ''__floor__'', ''__floordiv__'', ''__format__'', ''__ge__'', ''__getattribute__'',
      ''__getnewargs__'', ''__gt__'', ''__hash__'', ''__index__'', ''__init__'',
      ''__init_subclass__'', ''__int__'', ''__invert__'', ''__le__'', ''__lshift__'',
      ''__lt__'', ''__mod__'', ''__mul__'', ''__ne__'', ''__neg__'', ''__new__'', ''__or__'',
      ''__pos__'', ''__pow__'', ''__radd__'', ''__rand__'', ''__rdivmod__'', ''__reduce__'',
      ''__reduce_ex__'', ''__repr__'', ''__rfloordiv__'', ''__rlshift__'', ''__rmod__'',
      ''__rmul__'', ''__ror__'', ''__round__'', ''__rpow__'', ''__rrshift__'', ''__rshift__'',
      ''__rsub__'', ''__rtruediv__'', ''__rxor__'', ''__setattr__'', ''__sizeof__'',
      ''__str__'', ''__sub__'', ''__subclasshook__'', ''__truediv__'', ''__trunc__'',
      ''__xor__'', ''as_integer_ratio'', ''bit_count'', ''bit_length'', ''conjugate'',
      ''denominator'', ''from_bytes'', ''imag'', ''is_integer'', ''numerator'', ''real'',
      ''to_bytes'']"

definition file_methods :: "string list" where
  "file_methods =
     [''close'', ''fileno'', ''flush'', ''read'', ''readline'', ''readlines'', ''seek'',
      ''tell'', ''truncate'', ''write'', ''writelines'']"

fun lookup_method :: "handle \<Rightarrow> string \<Rightarrow> error + unit" where
  "lookup_method (OsFd i) name =
     (if name \<in> set int_attrs then Inr () else Inl (no_attribute ''int'' name))"
| "lookup_method (FileObject path pos) name =
     (if name \<in> set file_methods then Inr ()
      else Inl (no_attribute ''_io.BufferedRandom'' name))"

definition file_content :: "world \<Rightarrow> string \<Rightarrow> string" where
  "file_content w path = (case disk w path of None \<Rightarrow> [] | Some c \<Rightarrow> c)"

fun handle_write :: "handle \<Rightarrow> string \<Rightarrow> world \<Rightarrow> (error + handle) \<times> world" where
  "handle_write (OsFd i) data w = (Inl (no_attribute ''int'' ''write''), w)"
| "handle_write (FileObject path pos) data w =
     (let old = file_content w path;
          new = take pos old @ data @ drop (pos + length data) old
      in (Inr (FileObject path (pos + length data)), w\<lparr>disk := (disk w)(path \<mapsto> new)\<rparr>))"

fun handle_read :: "handle \<Rightarrow> world \<Rightarrow> error + string \<times> handle" where
  "handle_read (OsFd i) w = Inl (no_attribute ''int'' ''read'')"
| "handle_read (FileObject path pos) w =
     (let old = file_content w path
      in Inr (drop pos old, FileObject path (max pos (length old))))"

text \<open>
  \<open>upload_datapackage(datapackage)\<close>, statement by statement. The result is what the call
  returns or raises, the argument as the call leaves it, and the environment.
\<close>

definition upload_datapackage ::
    "pyobj \<Rightarrow> world \<Rightarrow> (error + json) \<times> pyobj \<times> world" where
  "upload_datapackage datapackage w =
     (let api_url = urljoin BASE_URL ''/v1/datapackages'' in
      case validate_datapackage datapackage of
        Inl e \<Rightarrow> (Inl e, datapackage, w)
      | Inr u \<Rightarrow>
      (case mkstemp ''QCI_DP_'' ''.zip'' w of
        ((fd, datapackage_file_path), w1) \<Rightarrow>
      (let datapackage_fd = OsFd fd in
       case lookup_method datapackage_fd ''write'' of
        Inl e \<Rightarrow> (Inl e, datapackage, w1)
      | Inr u \<Rightarrow>
      (case obj_to_xml datapackage of
        (Inl e, datapackage1) \<Rightarrow> (Inl e, datapackage1, w1)
      | (Inr xml, datapackage1) \<Rightarrow>
      (case handle_write datapackage_fd xml w1 of
        (Inl e, w2) \<Rightarrow> (Inl e, datapackage1, w2)
      | (Inr datapackage_fd1, w2) \<Rightarrow>
      (case obj_access_token datapackage1 of
        (Inl e, datapackage2) \<Rightarrow> (Inl e, datapackage2, w2)
      | (Inr token, datapackage2) \<Rightarrow>
      (let hdrs = bearer (py_str token) in
       case lookup_method datapackage_fd1 ''read'' of
        Inl e \<Rightarrow> (Inl e, datapackage2, w2)
      | Inr u \<Rightarrow>
      (case handle_read datapackage_fd1 w2 of
        Inl e \<Rightarrow> (Inl e, datapackage2, w2)
      | Inr (data, datapackage_fd2) \<Rightarrow>
      (let fls = [(''file'', data)] in
       case requests_post api_url hdrs fls w2 of
        (Inl e, w3) \<Rightarrow> (Inl e, datapackage2, w3)
      | (Inr resp, w3) \<Rightarrow> (json_of resp, datapackage2, w3))))))))))"

section \<open>Report export\<close>

text \<open>
  \<open>datetime.now().strftime('%Y-%m-%d')\<close>: the year in four digits, the month and the day in
  two, zero-padded.
\<close>

definition zfill :: "nat \<Rightarrow> string \<Rightarrow> string" where
  "zfill n s = replicate (n - length s) CHR ''0'' @ s"

definition strftime_Ymd :: "datetime \<Rightarrow> string" where
  "strftime_Ymd d =
     zfill 4 (str_nat (year d)) @ ''-'' @ zfill 2 (str_nat (month d)) @ ''-''
       @ zfill 2 (str_nat (day d))"

text \<open>
  \<open>with open(name, 'wb') as f: f.write(data)\<close>: the file is created or truncated and holds
  \<open>data\<close> afterwards; \<open>open\<close> raises \<open>OSError\<close> where the path cannot be opened.
\<close>

definition write_file :: "string \<Rightarrow> string \<Rightarrow> world \<Rightarrow> (error + unit) \<times> world" where
  "write_file name data w =
     (if openable w name then (Inr (), w\<lparr>disk := (disk w)(name \<mapsto> data)\<rparr>)
      else (Inl (OSError name), w))"

text \<open>
  \<open>get_report_pdf(access_token, qci_id, output_pdf_filename='')\<close>. A call that does not
  supply the file name passes \<open>None\<close> here and the parameter takes its default.
\<close>

definition get_report_pdf ::
    "string \<Rightarrow> string \<Rightarrow> string option \<Rightarrow> world \<Rightarrow> (error + string) \<times> world" where
  "get_report_pdf token qci_id filename_arg w =
     (let output_pdf_filename = (case filename_arg of None \<Rightarrow> [] | Some f \<Rightarrow> f);
          api_url = urljoin BASE_URL
            (''/v1/export/'' @ qci_id @ ''?'' @ ''view='' @ ''pdf'' @ ''&access_token='' @ token);
          hdrs = bearer token
      in case requests_get api_url [] hdrs w of
           (Inl e, w1) \<Rightarrow> (Inl e, w1)
         | (Inr resp, w1) \<Rightarrow>
             (let output_pdf_filename =
                    (if output_pdf_filename = []
                     then qci_id @ ''_'' @ strftime_Ymd (now w1) @ ''.pdf''
                     else output_pdf_filename)
              in case write_file output_pdf_filename (content resp) w1 of
                   (Inl e, w2) \<Rightarrow> (Inl e, w2)
                 | (Inr u, w2) \<Rightarrow> (Inr (abspath w2 output_pdf_filename), w2)))"

section \<open>Listing\<close>

text \<open>
  \<open>list_tests(access_token, state='', start_date='', end_date='', sort_by='')\<close>. The URL is
  built first: \<open>state=\<close> is part of the text that is formatted, the other three filters are
  appended when they are not empty.
\<close>

definition list_tests_url :: "string \<Rightarrow> string \<Rightarrow> string \<Rightarrow> string \<Rightarrow> string" where
  "list_tests_url state start_date end_date sort_by =
     (let api_url = urljoin BASE_URL (''/v1/clinical?'' @ ''state='' @ state);
          api_url = (if start_date \<noteq> [] then api_url @ ''&startReceivedDate='' @ start_date
                     else api_url);
          api_url = (if end_date \<noteq> [] then api_url @ ''&endReceivedDate='' @ end_date
                     else api_url);
          api_url = (if sort_by \<noteq> [] then api_url @ ''&sort='' @ sort_by else api_url)
      in api_url)"

definition list_tests ::
    "string \<Rightarrow> string \<Rightarrow> string \<Rightarrow> string \<Rightarrow> string \<Rightarrow> world \<Rightarrow> (error + json) \<times> world" where
  "list_tests token state start_date end_date sort_by w =
     (let api_url = list_tests_url state start_date end_date sort_by;
          hdrs = bearer token
      in case requests_get api_url [] hdrs w of
           (Inl e, w1) \<Rightarrow> (Inl e, w1)
         | (Inr resp, w1) \<Rightarrow> (json_of resp, w1))"

section \<open>Reading a URL's query\<close>

text \<open>
  What a reader of a URL calls its query parameters: the text after the first \<open>?\<close>, cut at
  every \<open>&\<close>, each piece cut at its first \<open>=\<close> into a name and a value. These
  definitions serve to state properties of the URLs the client builds; the client itself
  never parses a URL.
\<close>

fun split_on :: "char \<Rightarrow> string \<Rightarrow> string list" where
  "split_on c [] = [[]]"
| "split_on c (x # xs) =
     (if x = c then [] # split_on c xs
      else (case split_on c xs of [] \<Rightarrow> [[x]] | y # ys \<Rightarrow> (x # y) # ys))"

definition query_of :: "string \<Rightarrow> string" where
  "query_of u = drop 1 (dropWhile (\<lambda>x. x \<noteq> CHR ''?'') u)"

definition name_value :: "string \<Rightarrow> string \<times> string" where
  "name_value p =
     (takeWhile (\<lambda>x. x \<noteq> CHR ''='') p, drop 1 (dropWhile (\<lambda>x. x \<noteq> CHR ''='') p))"

definition query_params :: "string \<Rightarrow> (string \<times> string) list" where
  "query_params u =
     (if CHR ''?'' \<in> set u then map name_value (split_on CHR ''&'' (query_of u)) else [])"

text \<open>
  The filters a call supplies, under the names the service gives them: a filter left at its
  default, the empty string, is not supplied.
\<close>

definition supplied_filters ::
    "string \<Rightarrow> string \<Rightarrow> string \<Rightarrow> string \<Rightarrow> (string \<times> string) list" where
  "supplied_filters state start_date end_date sort_by =
     filter (\<lambda>p. snd p \<noteq> [])
       [(''state'', state), (''startReceivedDate'', start_date),
        (''endReceivedDate'', end_date), (''sort'', sort_by)]"

text \<open>A filter value that can stand in a URL as it is: no delimiter, no white space.\<close>

definition delimiters :: "char list" where
  "delimiters =
     [CHR ''&'', CHR ''='', CHR ''?'', CHR ''#'', CHR '' '', CHR 0x09, CHR 0x0A, CHR 0x0D]"

definition plain :: "string \<Rightarrow> bool" where
  "plain s = list_all (\<lambda>c. c \<notin> set delimiters) s"

text \<open>
  An identifier that can stand as the last segment of a URL's path as it is: plain, without
  \<open>/\<close> or \<open>;\<close>, and not one of the dot segments.
\<close>

definition path_safe :: "string \<Rightarrow> bool" where
  "path_safe s =
     (plain s \<and> CHR ''/'' \<notin> set s \<and> CHR '';'' \<notin> set s \<and> s \<noteq> ''.'' \<and> s \<noteq> ''..'')"

section \<open>Reading a date\<close>

text \<open>
  The pattern \<open>yyyy-mm-dd\<close>: ten characters, digits but for the two hyphens. A date the
  clock can give has a year of four digits (where every platform prints \<open>%Y\<close> alike), a
  month between 1 and 12 and a day between 1 and 31.
\<close>

definition is_digit :: "char \<Rightarrow> bool" where
  "is_digit c = (c \<in> set ''0123456789'')"

definition iso_date :: "string \<Rightarrow> bool" where
  "iso_date s =
     (length s = 10 \<and> list_all is_digit (take 4 s) \<and> s ! 4 = CHR ''-'' \<and>
      list_all is_digit (take 2 (drop 5 s)) \<and> s ! 7 = CHR ''-'' \<and>
      list_all is_digit (drop 8 s))"

definition valid_date :: "datetime \<Rightarrow> bool" where
  "valid_date d =
     (1000 \<le> year d \<and> year d \<le> 9999 \<and> 1 \<le> month d \<and> month d \<le> 12 \<and>
      1 \<le> day d \<and> day d \<le> 31)"

text \<open>
  Reading a decimal numeral back: the value of a digit is its place among the ten digits,
  and a numeral is read from the left. The year of a date in the pattern is what its first
  four characters read as, the month its characters 5 and 6, the day its last two.
\<close>

definition digit_value :: "char \<Rightarrow> nat" where
  "digit_value c = length (takeWhile (\<lambda>x. x \<noteq> c) ''0123456789'')"

definition read_nat :: "string \<Rightarrow> nat" where
  "read_nat s = foldl (\<lambda>n c. 10 * n + digit_value c) 0 s"

section \<open>Example values\<close>

text \<open>A package as the module's own example builds it, and one with no token.\<close>

definition example_package :: DataPackage where
  "example_package =
     \<lparr>f_access_token = PStr ''tok'', f_primary_id = PStr ''COtGx1234'', f_secondary_id = PNone\<rparr>"

definition tokenless_package :: DataPackage where
  "tokenless_package =
     \<lparr>f_access_token = PStr [], f_primary_id = PStr ''COtGx1234'', f_secondary_id = PNone\<rparr>"

text \<open>
  An environment in which the service answers every request with the same response, every
  path can be opened, and the date is 9 July 2018.
\<close>

definition example_response :: response where
  "example_response =
     \<lparr>content = ''%PDF-1.4'', json_of = Inr (JDict [(''access_token'', JStr ''abc123'')])\<rparr>"

definition example_world :: world where
  "example_world =
     \<lparr>server = (\<lambda>r. Inr example_response), sent = [], disk = Map.empty,
      openable = (\<lambda>p. True), now = \<lparr>year = 2018, month = 7, day = 9\<rparr>,
      abspath = (\<lambda>p. ''/home/qci/'' @ p), next_fd = 3, temp_name = ''a1b2c3d4''\<rparr>"

section \<open>Properties of the class\<close>

lemma access_token_eq: "access_token p = (Inr (f_access_token p), p)"
  by (simp add: access_token_def getattr_DataPackage_def)

lemma getattr_primary_id:
  "getattr_DataPackage p ''primary_id'' =
     Inl (AttributeError
       (quoted ''DataPackage'' @ '' object has no attribute '' @ quoted ''primary_id''))"
  by (simp add: getattr_DataPackage_def class_methods_def object_attrs_def no_attribute_def)

lemma validate_eq:
  "validate p debug =
     (if truthy (f_access_token p) then (Inr PNone, p)
      else if debug then
        (Inl (AttributeError
           (quoted ''DataPackage'' @ '' object has no attribute '' @ quoted ''primary_id'')), p)
      else (Inr (PBool False), p))"
  by (simp add: validate_def access_token_eq getattr_primary_id)

text \<open>
  C3. The claim: the secondary identifier is optional, a package can be built from an access
  token and a primary identifier alone. The constructor has three parameters and no
  default: a call that supplies only the first two raises \<open>TypeError\<close>, whatever the two
  values are. (The module's own example, at the end of \<open>api.py\<close>, makes exactly this call.)
\<close>

theorem DataPackage_init_needs_secondary_id:
  "DataPackage_init (Some a) (Some p) None =
     Inl (TypeError
       (''__init__() missing 1 required positional argument: '' @ quoted ''secondary_id''))"
  by (simp add: DataPackage_init_def missing_message_def missing_args_def str_nat.simps)

text \<open>
  C6. For every package whose primary identifier is a string (the type the data model gives
  it), \<open>to_xml\<close> returns exactly that string, and nothing is generated around it.
\<close>

theorem to_xml_is_primary_id:
  "f_primary_id p = PStr s \<Longrightarrow> to_xml p = (Inr s, p)"
  by (simp add: to_xml_def getattr_DataPackage_def)

theorem to_xml_is_primary_id_witness:
  "f_primary_id example_package = PStr ''COtGx1234'' \<and>
   to_xml example_package = (Inr ''COtGx1234'', example_package)"
  using to_xml_is_primary_id [of example_package "''COtGx1234''"]
  by (simp add: example_package_def)

text \<open>
  C9. \<open>validate\<close> with \<open>debug=False\<close> never returns \<open>True\<close>: it returns \<open>False\<close> when the
  access token is empty (falsy) and \<open>None\<close> when it is not.
\<close>

theorem validate_never_true:
  "fst (validate p False) \<noteq> Inr (PBool True) \<and>
   (\<not> truthy (f_access_token p) \<longrightarrow> fst (validate p False) = Inr (PBool False)) \<and>
   (truthy (f_access_token p) \<longrightarrow> fst (validate p False) = Inr PNone)"
  by (simp add: validate_eq)

theorem validate_never_true_witness:
  "\<not> truthy (f_access_token tokenless_package) \<and>
   fst (validate tokenless_package False) = Inr (PBool False) \<and>
   truthy (f_access_token example_package) \<and>
   fst (validate example_package False) = Inr PNone"
  using validate_never_true [of tokenless_package] validate_never_true [of example_package]
  by (simp add: tokenless_package_def example_package_def)

text \<open>
  C10. Reading the attribute \<open>primary_id\<close> raises \<open>AttributeError\<close> on every package: the
  class has the field \<open>_primary_id\<close> only. So \<open>__str__\<close> raises it on every package, and
  \<open>validate\<close> with \<open>debug=True\<close> raises it, in place of the \<open>ValueError\<close> it was building,
  on every package whose access token is empty.
\<close>

theorem primary_id_lookup_raises:
  "getattr_DataPackage p ''primary_id'' =
     Inl (AttributeError
       (quoted ''DataPackage'' @ '' object has no attribute '' @ quoted ''primary_id'')) \<and>
   fst (DataPackage_str p) =
     Inl (AttributeError
       (quoted ''DataPackage'' @ '' object has no attribute '' @ quoted ''primary_id'')) \<and>
   (\<not> truthy (f_access_token p) \<longrightarrow>
      fst (validate p True) =
        Inl (AttributeError
          (quoted ''DataPackage'' @ '' object has no attribute '' @ quoted ''primary_id'')))"
  by (simp add: validate_eq DataPackage_str_def getattr_primary_id)

theorem primary_id_lookup_raises_witness:
  "\<not> truthy (f_access_token tokenless_package) \<and>
   fst (DataPackage_str tokenless_package) =
     Inl (AttributeError
       (quoted ''DataPackage'' @ '' object has no attribute '' @ quoted ''primary_id'')) \<and>
   fst (validate tokenless_package True) =
     Inl (AttributeError
       (quoted ''DataPackage'' @ '' object has no attribute '' @ quoted ''primary_id''))"
  using primary_id_lookup_raises [of tokenless_package]
  by (simp add: tokenless_package_def)

section \<open>Properties of the upload\<close>

lemma write_not_int_attr: "''write'' \<notin> set int_attrs"
  by (simp add: int_attrs_def)

lemma upload_datapackage_eq:
  "upload_datapackage (Obj_DataPackage p) w =
     (Inl (no_attribute ''int'' ''write''), Obj_DataPackage p,
      w\<lparr>disk := (disk w)(''/tmp/QCI_DP_'' @ temp_name w @ ''.zip'' \<mapsto> []),
        next_fd := next_fd w + 1\<rparr>)"
  by (simp add: upload_datapackage_def validate_datapackage_def mkstemp_def
      write_not_int_attr Let_def)

text \<open>
  C1. The claim: a package with an empty access token is rejected by a validation error
  before any network call. On the code, \<open>validate_datapackage\<close> accepts the package of the
  example without a token (it tests the class of its argument only); the call then
  creates the temporary file and fails on \<open>datapackage_fd.write\<close>, with an
  \<open>AttributeError\<close>.
\<close>

theorem upload_tokenless_passes_validation:
  "validate_datapackage (Obj_DataPackage tokenless_package) = Inr () \<and>
   fst (upload_datapackage (Obj_DataPackage tokenless_package) w) =
     Inl (AttributeError (quoted ''int'' @ '' object has no attribute '' @ quoted ''write'')) \<and>
   disk (snd (snd (upload_datapackage (Obj_DataPackage tokenless_package) w)))
     (''/tmp/QCI_DP_'' @ temp_name w @ ''.zip'') = Some []"
  by (simp add: upload_datapackage_eq validate_datapackage_def no_attribute_def)

text \<open>
  C2. The claim: the upload writes the serialized package to a temporary file, POSTs it with
  the bearer token and returns the parsed JSON. On the code, for every package and every
  environment, the call raises \<open>AttributeError\<close> at the write (\<open>mkstemp\<close> returns a
  descriptor, an \<open>int\<close>, not a file object): no request is performed and nothing is
  returned.
\<close>

theorem upload_datapackage_never_posts:
  "fst (upload_datapackage (Obj_DataPackage p) w) =
     Inl (AttributeError (quoted ''int'' @ '' object has no attribute '' @ quoted ''write'')) \<and>
   sent (snd (snd (upload_datapackage (Obj_DataPackage p) w))) = sent w"
  by (simp add: upload_datapackage_eq no_attribute_def)

text \<open>
  C8. No operation changes a package: the property \<open>access_token\<close>, \<open>to_xml\<close>, \<open>validate\<close>
  (with either value of \<open>debug\<close>), \<open>__str__\<close> and \<open>upload_datapackage\<close> each leave the
  instance with the three attributes it had.
\<close>

theorem DataPackage_never_mutated:
  "snd (access_token p) = p \<and> snd (to_xml p) = p \<and> snd (validate p debug) = p \<and>
   snd (DataPackage_str p) = p \<and>
   fst (snd (upload_datapackage (Obj_DataPackage p) w)) = Obj_DataPackage p"
  by (simp add: access_token_eq validate_eq DataPackage_str_def getattr_primary_id
      upload_datapackage_eq to_xml_def getattr_DataPackage_def split: sum.splits)

section \<open>Properties of the requests\<close>

lemma origin_BASE_URL: "origin BASE_URL = ''https://api.ingenuity.com''"
  by (simp add: BASE_URL_def)

lemma urljoin_BASE_URL: "urljoin BASE_URL (CHR ''/'' # p) = ''https://api.ingenuity.com/'' @ p"
  by (simp add: urljoin_def origin_BASE_URL)

text \<open>
  C5. When the token endpoint answers the request with a JSON object, \<open>get_access_token\<close>
  returns the value of its field \<open>access_token\<close>, and only that value.
\<close>

theorem get_access_token_returns_field:
  assumes "server w \<lparr>req_method = ''GET'',
             req_url = ''https://api.ingenuity.com/v1/oauth/access_token'',
             req_params = [(''grant_type'', ''client_credentials''), (''client_id'', client_id),
                           (''client_secret'', client_secret)],
             req_headers = [], req_files = []\<rparr> = Inr resp"
    and "json_of resp = Inr (JDict d)"
    and "map_of d ''access_token'' = Some v"
  shows "fst (get_access_token client_id client_secret w) = Inr v"
  using assms by (simp add: get_access_token_def requests_get_def urljoin_BASE_URL Let_def)

theorem get_access_token_returns_field_witness:
  "fst (get_access_token ''id'' ''secret'' example_world) = Inr (JStr ''abc123'')"
  using get_access_token_returns_field [of example_world "''id''" "''secret''" example_response
      "[(''access_token'', JStr ''abc123'')]" "JStr ''abc123''"]
  by (simp add: example_world_def example_response_def)

subsection \<open>The default name of the report\<close>

lemma digit_nth: "k < 10 \<Longrightarrow> is_digit (''0123456789'' ! k)"
  unfolding is_digit_def by (rule nth_mem) simp

lemma str_nat_digits: "list_all is_digit (str_nat n)"
proof (induction n rule: str_nat.induct)
  case (1 n)
  show ?case
  proof (cases "n < 10")
    case True
    then show ?thesis by (subst str_nat.simps) (simp add: digit_nth)
  next
    case False
    with 1 show ?thesis by (subst str_nat.simps) (simp add: digit_nth)
  qed
qed

lemma length_str_nat_1: "n < 10 \<Longrightarrow> length (str_nat n) = 1"
  by (subst str_nat.simps) simp

lemma length_str_nat_2: "n < 100 \<Longrightarrow> length (str_nat n) \<le> 2"
  by (subst str_nat.simps) (simp add: length_str_nat_1)

lemma length_str_nat_3: "n < 1000 \<Longrightarrow> length (str_nat n) \<le> 3"
  using length_str_nat_2 [of "n div 10"] by (subst str_nat.simps) simp

lemma length_str_nat_4: "n < 10000 \<Longrightarrow> length (str_nat n) \<le> 4"
  using length_str_nat_3 [of "n div 10"] by (subst str_nat.simps) simp

lemma length_zfill: "length s \<le> n \<Longrightarrow> length (zfill n s) = n"
  by (simp add: zfill_def)

lemma is_digit_0: "is_digit CHR ''0''"
  by (simp add: is_digit_def)

lemma zfill_digits: "list_all is_digit s \<Longrightarrow> list_all is_digit (zfill n s)"
  by (auto simp: zfill_def list_all_iff is_digit_0)

lemma iso_date_append:
  "length a = 4 \<Longrightarrow> length b = 2 \<Longrightarrow> length c = 2 \<Longrightarrow> list_all is_digit a \<Longrightarrow>
   list_all is_digit b \<Longrightarrow> list_all is_digit c \<Longrightarrow> iso_date (a @ ''-'' @ b @ ''-'' @ c)"
  by (simp add: iso_date_def nth_append)

lemma strftime_iso: "valid_date d \<Longrightarrow> iso_date (strftime_Ymd d)"
  unfolding strftime_Ymd_def
  by (rule iso_date_append)
     (simp_all add: valid_date_def length_zfill length_str_nat_4 length_str_nat_2
        zfill_digits str_nat_digits)

lemma digit_value_nth: "k < 10 \<Longrightarrow> digit_value (''0123456789'' ! k) = k"
proof -
  assume "k < 10"
  then have "k = 0 \<or> k = 1 \<or> k = 2 \<or> k = 3 \<or> k = 4 \<or> k = 5 \<or> k = 6 \<or> k = 7 \<or> k = 8 \<or> k = 9"
    by arith
  then show ?thesis
    by (elim disjE) (simp_all add: digit_value_def)
qed

lemma read_nat_snoc: "read_nat (s @ [c]) = 10 * read_nat s + digit_value c"
  by (simp add: read_nat_def)

lemma read_nat_str_nat: "read_nat (str_nat n) = n"
proof (induction n rule: str_nat.induct)
  case (1 n)
  show ?case
  proof (cases "n < 10")
    case True
    then show ?thesis
      by (subst str_nat.simps) (simp add: read_nat_def digit_value_nth)
  next
    case False
    with 1 have "read_nat (str_nat (n div 10)) = n div 10" by simp
    with False show ?thesis
      by (subst str_nat.simps) (simp add: read_nat_snoc digit_value_nth)
  qed
qed

lemma foldl_zeros:
  "foldl (\<lambda>n c. 10 * n + digit_value c) 0 (replicate k CHR ''0'') = 0"
  by (induction k) (simp_all add: digit_value_def)

lemma read_nat_zfill: "read_nat (zfill k s) = read_nat s"
  by (simp add: read_nat_def zfill_def foldl_zeros)

lemma fields_of_date:
  "length a = 4 \<Longrightarrow> length b = 2 \<Longrightarrow>
   take 4 (a @ ''-'' @ b @ ''-'' @ c) = a \<and> take 2 (drop 5 (a @ ''-'' @ b @ ''-'' @ c)) = b \<and>
   drop 8 (a @ ''-'' @ b @ ''-'' @ c) = c"
  by simp

lemma strftime_reads_back:
  assumes "valid_date d"
  shows "read_nat (take 4 (strftime_Ymd d)) = year d"
    and "read_nat (take 2 (drop 5 (strftime_Ymd d))) = month d"
    and "read_nat (drop 8 (strftime_Ymd d)) = day d"
proof -
  have a: "length (zfill 4 (str_nat (year d))) = 4"
    using assms by (simp add: valid_date_def length_zfill length_str_nat_4)
  have b: "length (zfill 2 (str_nat (month d))) = 2"
    using assms by (simp add: valid_date_def length_zfill length_str_nat_2)
  note f = fields_of_date [OF a b, of "zfill 2 (str_nat (day d))"]
  show "read_nat (take 4 (strftime_Ymd d)) = year d"
    unfolding strftime_Ymd_def using f by (simp add: read_nat_zfill read_nat_str_nat)
  show "read_nat (take 2 (drop 5 (strftime_Ymd d))) = month d"
    unfolding strftime_Ymd_def using f by (simp add: read_nat_zfill read_nat_str_nat)
  show "read_nat (drop 8 (strftime_Ymd d)) = day d"
    unfolding strftime_Ymd_def using f by (simp add: read_nat_zfill read_nat_str_nat)
qed

text \<open>
  C7. Called without a file name, \<open>get_report_pdf\<close> writes the content of the response to the
  file named \<open><identifier>_<date>.pdf\<close> and returns the absolute path of that name. The
  date is the current one in the form \<open>yyyy-mm-dd\<close>: it has the shape of the pattern, and
  its three fields read back as the year, the month and the day of the clock. (This is for
  an identifier and a token that stand in the URL as they are, when the service answers the
  request and the file can be opened; either failure is an exception.)
\<close>

theorem get_report_pdf_default_name:
  assumes "server w \<lparr>req_method = ''GET'',
             req_url = ''https://api.ingenuity.com/v1/export/'' @ qci_id
                         @ ''?view=pdf&access_token='' @ token,
             req_params = [], req_headers = [(''Authorization'', ''Bearer '' @ token)],
             req_files = []\<rparr> = Inr resp"
    and "openable w (qci_id @ ''_'' @ strftime_Ymd (now w) @ ''.pdf'')"
    and "valid_date (now w)"
    and "path_safe qci_id"
    and "plain token"
  shows "fst (get_report_pdf token qci_id None w) =
           Inr (abspath w (qci_id @ ''_'' @ strftime_Ymd (now w) @ ''.pdf'')) \<and>
         disk (snd (get_report_pdf token qci_id None w)) =
           (disk w)(qci_id @ ''_'' @ strftime_Ymd (now w) @ ''.pdf'' \<mapsto> content resp) \<and>
         iso_date (strftime_Ymd (now w)) \<and>
         read_nat (take 4 (strftime_Ymd (now w))) = year (now w) \<and>
         read_nat (take 2 (drop 5 (strftime_Ymd (now w)))) = month (now w) \<and>
         read_nat (drop 8 (strftime_Ymd (now w))) = day (now w)"
  using assms(1-3)
  by (simp add: get_report_pdf_def requests_get_def urljoin_BASE_URL Let_def write_file_def
      bearer_def strftime_iso strftime_reads_back)

lemma strftime_example: "strftime_Ymd (now example_world) = ''2018-07-09''"
  by (simp add: example_world_def strftime_Ymd_def zfill_def str_nat.simps)

theorem get_report_pdf_default_name_witness:
  "path_safe ''DP_1'' \<and> plain ''tok'' \<and> valid_date (now example_world) \<and>
   fst (get_report_pdf ''tok'' ''DP_1'' None example_world) =
     Inr ''/home/qci/DP_1_2018-07-09.pdf'' \<and>
   disk (snd (get_report_pdf ''tok'' ''DP_1'' None example_world)) ''DP_1_2018-07-09.pdf'' =
     Some ''%PDF-1.4'' \<and>
   iso_date ''2018-07-09'' \<and> read_nat ''2018'' = 2018 \<and> read_nat ''07'' = 7 \<and>
   read_nat ''09'' = 9"
  using get_report_pdf_default_name [of example_world "''DP_1''" "''tok''" example_response]
  by (simp add: strftime_example valid_date_def path_safe_def plain_def delimiters_def)
     (simp add: example_world_def example_response_def)

subsection \<open>The URL of the listing\<close>

lemma split_on_plain: "c \<notin> set a \<Longrightarrow> split_on c a = [a]"
  by (induction a) auto

lemma split_on_append: "c \<notin> set a \<Longrightarrow> split_on c (a @ c # r) = a # split_on c r"
  by (induction a) auto

lemma plain_notin:
  assumes "plain s"
  shows "CHR ''&'' \<notin> set s" and "CHR ''='' \<notin> set s" and "CHR ''?'' \<notin> set s"
  using assms by (auto simp: plain_def delimiters_def list_all_iff)

lemma list_tests_url_eq:
  "list_tests_url state start_date end_date sort_by =
     ''https://api.ingenuity.com/v1/clinical?state='' @ state
       @ (if start_date = [] then [] else ''&startReceivedDate='' @ start_date)
       @ (if end_date = [] then [] else ''&endReceivedDate='' @ end_date)
       @ (if sort_by = [] then [] else ''&sort='' @ sort_by)"
  by (simp add: list_tests_url_def urljoin_BASE_URL Let_def)

text \<open>
  C4, as the code has it. The request of \<open>list_tests\<close> goes to the URL built from the
  filters, and that URL always carries the parameter \<open>state\<close>, with an empty value when no
  state is given, followed by those of \<open>startReceivedDate\<close>, \<open>endReceivedDate\<close> and
  \<open>sort\<close> whose values were supplied, in this order and with these values (for filter
  values free of URL delimiters and white space).
\<close>

theorem list_tests_url_params:
  assumes "plain state" and "plain start_date" and "plain end_date" and "plain sort_by"
  shows "sent (snd (list_tests token state start_date end_date sort_by w)) =
           sent w @ [\<lparr>req_method = ''GET'',
                       req_url = list_tests_url state start_date end_date sort_by,
                       req_params = [], req_headers = [(''Authorization'', ''Bearer '' @ token)],
                       req_files = []\<rparr>] \<and>
         query_params (list_tests_url state start_date end_date sort_by) =
           (''state'', state) #
             filter (\<lambda>p. snd p \<noteq> [])
               [(''startReceivedDate'', start_date), (''endReceivedDate'', end_date),
                (''sort'', sort_by)]"
proof
  show "sent (snd (list_tests token state start_date end_date sort_by w)) =
           sent w @ [\<lparr>req_method = ''GET'',
                       req_url = list_tests_url state start_date end_date sort_by,
                       req_params = [], req_headers = [(''Authorization'', ''Bearer '' @ token)],
                       req_files = []\<rparr>]"
    by (simp add: list_tests_def requests_get_def bearer_def Let_def split: sum.splits)
next
  show "query_params (list_tests_url state start_date end_date sort_by) =
           (''state'', state) #
             filter (\<lambda>p. snd p \<noteq> [])
               [(''startReceivedDate'', start_date), (''endReceivedDate'', end_date),
                (''sort'', sort_by)]"
    using plain_notin [OF assms(1)] plain_notin [OF assms(2)] plain_notin [OF assms(3)]
      plain_notin [OF assms(4)]
    by (simp add: list_tests_url_eq query_params_def query_of_def split_on_plain
        split_on_append name_value_def)
qed

theorem list_tests_url_params_witness:
  "plain ''final'' \<and> plain ''2018-01-01'' \<and> plain [] \<and>
   query_params (list_tests_url ''final'' ''2018-01-01'' [] []) =
     [(''state'', ''final''), (''startReceivedDate'', ''2018-01-01'')] \<and>
   req_url (last (sent (snd (list_tests ''tok'' ''final'' ''2018-01-01'' [] [] example_world)))) =
     ''https://api.ingenuity.com/v1/clinical?state=final&startReceivedDate=2018-01-01''"
  using list_tests_url_params [of "''final''" "''2018-01-01''" "[]" "[]" "''tok''" example_world]
  by (simp add: plain_def delimiters_def list_tests_url_eq)

text \<open>
  C4, as the claim states it: the URL contains exactly the parameters of the filters that
  were supplied. With no filter supplied the URL still contains the parameter \<open>state\<close>.
\<close>

theorem list_tests_url_unset_state_counterexample:
  "query_params (list_tests_url [] [] [] []) = [(''state'', [])] \<and>
   supplied_filters [] [] [] [] = []"
  by (simp add: list_tests_url_eq query_params_def query_of_def supplied_filters_def
      name_value_def)

end
